theory Spec2Isabelle
  imports Main "HOL-Library.Word" "HOL-Library.Multiset"
begin

section \<open>Data model\<close>

text \<open>
  The service of \<^verbatim>\<open>backend/main.py\<close> keeps two pieces of persistent state: the upload
  directory on disk and the table \<^verbatim>\<open>files\<close> of \<^verbatim>\<open>backend/models.py\<close>. Both are made
  explicit here, together with a log of the effects in the order the code performs them.
\<close>

type_synonym bytes = "8 word list"

type_synonym datetime = int

text \<open>\<^verbatim>\<open>models.File\<close>: one row of the table \<^verbatim>\<open>files\<close>.\<close>

record File =
  id :: int
  original_filename :: string
  system_filename :: string
  file_size_bytes :: int
  uploaded_at :: datetime

text \<open>
  The object \<^verbatim>\<open>models.File(original_filename=..., system_filename=..., file_size_bytes=...)\<close>
  before it is flushed: \<^verbatim>\<open>id\<close> and \<^verbatim>\<open>uploaded_at\<close> are filled in by the insert.
\<close>

record File_new =
  new_original_filename :: string
  new_system_filename :: string
  new_file_size_bytes :: int

text \<open>\<^verbatim>\<open>schemas.FileUploadResponse\<close>, \<^verbatim>\<open>schemas.FileMetadata\<close>, \<^verbatim>\<open>schemas.FileListResponse\<close>.\<close>

record FileUploadResponse =
  message :: string
  file_id :: int

record FileMetadata =
  id :: int
  original_filename :: string
  system_filename :: string
  file_size_bytes :: int
  uploaded_at :: "datetime option"

record FileListResponse =
  files :: "FileMetadata list"
  count :: int

text \<open>
  The exceptions the handlers distinguish: \<^verbatim>\<open>HTTPException(status_code, detail)\<close>,
  \<^verbatim>\<open>SQLAlchemyError\<close> (with its text), and any other \<^verbatim>\<open>Exception\<close> (with its text).
\<close>

datatype exn =
    HTTPException nat string
  | SQLAlchemyError string
  | OtherError string

text \<open>\<^verbatim>\<open>UploadFile\<close>: \<^verbatim>\<open>file.filename\<close> is optional, \<^verbatim>\<open>await file.read()\<close> yields the payload.\<close>

record UploadFile =
  filename :: "string option"
  content :: bytes

text \<open>An SQLAlchemy session: its handle and the objects added but not yet flushed.\<close>

record Session =
  sid :: nat
  pending :: "File_new list"

datatype event =
    SessionOpened nat
  | SessionClosed nat
  | FileWritten string
  | FileDeleted string
  | Committed "int list"
  | RolledBack nat

record world =
  disk :: "string \<rightharpoonup> bytes"
  table_files :: "File list"
  next_sid :: nat
  events :: "event list"

text \<open>
  What a request cannot control: the token of \<^verbatim>\<open>uuid.uuid4()\<close>, the clock read by the
  column default \<^verbatim>\<open>datetime.utcnow\<close>, and whether the file write, the commit or the query
  raise.
\<close>

datatype fs_fault =
    OpenFails string
  | WriteFails nat string

record env =
  uuid4 :: string
  utcnow :: datetime
  fs_error :: "fs_fault option"
  commit_error :: "exn option"
  query_error :: "exn option"

section \<open>Library operations used by the handlers\<close>

subsection \<open>\<^verbatim>\<open>pathlib\<close>: \<^verbatim>\<open>Path(s).suffix\<close> on a POSIX path\<close>

fun split :: "char \<Rightarrow> string \<Rightarrow> string list" where
  "split c [] = [[]]"
| "split c (x # xs) =
     (if x = c then [] # split c xs
      else (case split c xs of [] \<Rightarrow> [[x]] | p # ps \<Rightarrow> (x # p) # ps))"

text \<open>The path's components: empty ones and \<^verbatim>\<open>.\<close> are dropped when the path is parsed.\<close>

definition path_tail :: "string \<Rightarrow> string list" where
  "path_tail s = filter (\<lambda>p. p \<noteq> [] \<and> p \<noteq> ''.'') (split CHR ''/'' s)"

definition path_name :: "string \<Rightarrow> string" where
  "path_name s = (case path_tail s of [] \<Rightarrow> [] | p # ps \<Rightarrow> last (p # ps))"

text \<open>\<^verbatim>\<open>str.rfind\<close>: the highest index of the character, or \<open>-1\<close>.\<close>

definition rfind :: "char \<Rightarrow> string \<Rightarrow> int" where
  "rfind c s =
     (if c \<in> set s then int (length s) - 1 - int (length (takeWhile (\<lambda>x. x \<noteq> c) (rev s)))
      else - 1)"

text \<open>
  \<^verbatim>\<open>i = name.rfind('.'); return name[i:] if 0 < i < len(name) - 1 else ''\<close>
\<close>

definition suffix :: "string \<Rightarrow> string" where
  "suffix s =
     (let name = path_name s; i = rfind CHR ''.'' name
      in if 0 < i \<and> i < int (length name) - 1 then drop (nat i) name else [])"

definition UPLOAD_DIR :: string where
  "UPLOAD_DIR = ''backend/uploaded_files''"

definition path_join :: "string \<Rightarrow> string \<Rightarrow> string" where
  "path_join d n = d @ ''/'' @ n"

subsection \<open>The file system\<close>

text \<open>
  \<^verbatim>\<open>with open(file_path, "wb") as f: f.write(content)\<close>, with the exception raised, if
  any. A failing \<^verbatim>\<open>open\<close> leaves the disk as it was; a failing \<^verbatim>\<open>write\<close> leaves the
  file that \<^verbatim>\<open>open\<close> created, holding the bytes that reached it.
\<close>

definition write_file :: "env \<Rightarrow> string \<Rightarrow> bytes \<Rightarrow> world \<Rightarrow> exn option \<times> world" where
  "write_file e p c w =
     (case fs_error e of
        Some (OpenFails msg) \<Rightarrow> (Some (OtherError msg), w)
      | Some (WriteFails k msg) \<Rightarrow> (Some (OtherError msg), w\<lparr>disk := (disk w)(p \<mapsto> take k c)\<rparr>)
      | None \<Rightarrow> (None, w\<lparr>disk := (disk w)(p \<mapsto> c), events := events w @ [FileWritten p]\<rparr>))"

definition path_exists :: "world \<Rightarrow> string \<Rightarrow> bool" where
  "path_exists w p = (disk w p \<noteq> None)"

definition unlink :: "string \<Rightarrow> world \<Rightarrow> world" where
  "unlink p w = w\<lparr>disk := (disk w)(p := None), events := events w @ [FileDeleted p]\<rparr>"

subsection \<open>The metadata store\<close>

text \<open>
  \<^verbatim>\<open>id\<close> is an integer primary key: the store assigns one more than the largest id in
  the table.
\<close>

fun max_id :: "File list \<Rightarrow> int" where
  "max_id [] = 0"
| "max_id (r # rs) = max (File.id r) (max_id rs)"

definition UNIQUE_failed :: string where
  "UNIQUE_failed = ''(sqlite3.IntegrityError) UNIQUE constraint failed: files.system_filename''"

text \<open>
  The INSERTs of a flush, in order. \<^verbatim>\<open>system_filename\<close> is declared \<^verbatim>\<open>unique=True\<close>: a
  duplicate raises an \<^verbatim>\<open>IntegrityError\<close>, an \<^verbatim>\<open>SQLAlchemyError\<close>. The result is the ids
  assigned and the new table.
\<close>

fun flush :: "env \<Rightarrow> File_new list \<Rightarrow> File list \<Rightarrow> exn + (int list \<times> File list)" where
  "flush e [] rows = Inr ([], rows)"
| "flush e (n # ns) rows =
     (if new_system_filename n \<in> set (map File.system_filename rows)
      then Inl (SQLAlchemyError UNIQUE_failed)
      else (let r = \<lparr>File.id = max_id rows + 1,
                      File.original_filename = new_original_filename n,
                      File.system_filename = new_system_filename n,
                      File.file_size_bytes = new_file_size_bytes n,
                      File.uploaded_at = utcnow e\<rparr>
            in case flush e ns (rows @ [r]) of
                 Inl x \<Rightarrow> Inl x
               | Inr (ids, rows') \<Rightarrow> Inr (File.id r # ids, rows')))"

definition SessionLocal :: "world \<Rightarrow> Session \<times> world" where
  "SessionLocal w =
     (\<lparr>sid = next_sid w, pending = []\<rparr>,
      w\<lparr>next_sid := Suc (next_sid w), events := events w @ [SessionOpened (next_sid w)]\<rparr>)"

definition db_close :: "Session \<Rightarrow> world \<Rightarrow> world" where
  "db_close db w = w\<lparr>events := events w @ [SessionClosed (sid db)]\<rparr>"

definition db_add :: "Session \<Rightarrow> File_new \<Rightarrow> Session" where
  "db_add db n = db\<lparr>pending := pending db @ [n]\<rparr>"

text \<open>
  \<^verbatim>\<open>db.commit()\<close>: the pending objects are inserted in one transaction, so a failure
  leaves the table as it was. The ids assigned come back with the new state.
\<close>

definition db_commit :: "env \<Rightarrow> Session \<Rightarrow> world \<Rightarrow> exn + (int list \<times> Session \<times> world)" where
  "db_commit e db w =
     (case commit_error e of
        Some x \<Rightarrow> Inl x
      | None \<Rightarrow>
          (case flush e (pending db) (table_files w) of
             Inl x \<Rightarrow> Inl x
           | Inr (ids, rows') \<Rightarrow>
               Inr (ids, db\<lparr>pending := []\<rparr>,
                    w\<lparr>table_files := rows', events := events w @ [Committed ids]\<rparr>)))"

definition db_rollback :: "Session \<Rightarrow> world \<Rightarrow> Session \<times> world" where
  "db_rollback db w = (db\<lparr>pending := []\<rparr>, w\<lparr>events := events w @ [RolledBack (sid db)]\<rparr>)"

text \<open>
  \<^verbatim>\<open>db.refresh(new_file)\<close>: the row is read back by the primary key the flush gave the
  object. An object without one, or whose row is not there, raises
  \<^verbatim>\<open>InvalidRequestError\<close>, an \<^verbatim>\<open>SQLAlchemyError\<close>.
\<close>

definition db_refresh :: "world \<Rightarrow> int option \<Rightarrow> exn + File" where
  "db_refresh w key =
     (case key of
        None \<Rightarrow> Inl (SQLAlchemyError ''Instance is not persistent within this Session'')
      | Some i \<Rightarrow>
          (case find (\<lambda>r. File.id r = i) (table_files w) of
             None \<Rightarrow> Inl (SQLAlchemyError ''Could not refresh instance'')
           | Some r \<Rightarrow> Inr r))"

text \<open>The primary key of the object added last, among the ids a flush assigned.\<close>

definition identity_key :: "int list \<Rightarrow> int option" where
  "identity_key ids = (case rev ids of [] \<Rightarrow> None | i # _ \<Rightarrow> Some i)"

text \<open>
  \<^verbatim>\<open>db.query(models.File).order_by(models.File.uploaded_at.desc()).all()\<close>. SQL leaves the
  order of rows with equal \<^verbatim>\<open>uploaded_at\<close> open; here the later row comes first.
\<close>

definition order_by_uploaded_at_desc :: "File list \<Rightarrow> File list" where
  "order_by_uploaded_at_desc rows = rev (sort_key File.uploaded_at rows)"

definition db_query_all :: "env \<Rightarrow> world \<Rightarrow> exn + File list" where
  "db_query_all e w =
     (case query_error e of
        Some x \<Rightarrow> Inl x
      | None \<Rightarrow> Inr (order_by_uploaded_at_desc (table_files w)))"

subsection \<open>\<^verbatim>\<open>str(e)\<close>\<close>

fun dec :: "nat \<Rightarrow> string" where
  "dec n =
     (if n < 10 then [''0123456789'' ! n]
      else dec (n div 10) @ [''0123456789'' ! (n mod 10)])"

declare dec.simps [simp del]

text \<open>An \<^verbatim>\<open>HTTPException\<close> prints as \<^verbatim>\<open>f"{status_code}: {detail}"\<close>.\<close>

fun str :: "exn \<Rightarrow> string" where
  "str (HTTPException s d) = dec s @ '': '' @ d"
| "str (SQLAlchemyError m) = m"
| "str (OtherError m) = m"

section \<open>\<^verbatim>\<open>backend/main.py\<close>\<close>

definition MAX_FILE_SIZE :: int where
  "MAX_FILE_SIZE = 50 * 1024 * 1024"

definition HTTP_201_CREATED :: nat where "HTTP_201_CREATED = 201"
definition HTTP_400_BAD_REQUEST :: nat where "HTTP_400_BAD_REQUEST = 400"
definition HTTP_500_INTERNAL_SERVER_ERROR :: nat where "HTTP_500_INTERNAL_SERVER_ERROR = 500"

text \<open>
  \<^verbatim>\<open>get_db\<close>: \<^verbatim>\<open>db = SessionLocal(); try: yield db; finally: db.close()\<close>. The code that
  runs at the \<^verbatim>\<open>yield\<close> is the argument \<open>handler\<close>; it returns its result or its
  exception as a value, so the \<^verbatim>\<open>finally\<close> clause is the unconditional \<open>db_close\<close>.
\<close>

definition get_db :: "(Session \<Rightarrow> world \<Rightarrow> 'a \<times> Session \<times> world) \<Rightarrow> world \<Rightarrow> 'a \<times> world" where
  "get_db handler w =
     (case SessionLocal w of
        (db, w1) \<Rightarrow> (case handler db w1 of (r, db', w2) \<Rightarrow> (r, db_close db' w2)))"

text \<open>
  The \<^verbatim>\<open>try\<close> block of \<^verbatim>\<open>upload_document\<close> (lines 86 to 125). Beside the result it
  returns the local \<^verbatim>\<open>file_path\<close>, \<open>None\<close> while it is unbound, for the handler of
  \<^verbatim>\<open>SQLAlchemyError\<close>.
\<close>

definition upload_try ::
  "env \<Rightarrow> UploadFile \<Rightarrow> string \<Rightarrow> Session \<Rightarrow> world
     \<Rightarrow> (exn + FileUploadResponse) \<times> string option \<times> Session \<times> world" where
  "upload_try e file fname db w =
     (let c = content file in
      if int (length c) > MAX_FILE_SIZE then
        (Inl (HTTPException HTTP_400_BAD_REQUEST ''File too large. Maximum size is 50 MB''),
         None, db, w)
      else if length c = 0 then
        (Inl (HTTPException HTTP_400_BAD_REQUEST ''Empty file is not allowed''), None, db, w)
      else
        (let file_extension = suffix fname;
             unique_id = uuid4 e;
             system_filename = unique_id @ file_extension;
             file_path = path_join UPLOAD_DIR system_filename
         in case write_file e file_path c w of
              (Some x, w1) \<Rightarrow> (Inl x, Some file_path, db, w1)
            | (None, w1) \<Rightarrow>
                (let new_file = \<lparr>new_original_filename = fname,
                                 new_system_filename = system_filename,
                                 new_file_size_bytes = int (length c)\<rparr>;
                     db1 = db_add db new_file
                 in case db_commit e db1 w1 of
                      Inl x \<Rightarrow> (Inl x, Some file_path, db1, w1)
                    | Inr (ids, db2, w2) \<Rightarrow>
                        (case db_refresh w2 (identity_key ids) of
                           Inl x \<Rightarrow> (Inl x, Some file_path, db2, w2)
                         | Inr row \<Rightarrow>
                             (Inr \<lparr>message = ''File uploaded successfully'',
                                   file_id = File.id row\<rparr>,
                              Some file_path, db2, w2)))))"

text \<open>
  \<^verbatim>\<open>upload_document\<close>: the check of the filename, the \<^verbatim>\<open>try\<close> block, and the two
  \<^verbatim>\<open>except\<close> clauses in the order of the source. \<^verbatim>\<open>not file.filename\<close> holds for
  \<^verbatim>\<open>None\<close> and for the empty string.
\<close>

definition upload_document ::
  "env \<Rightarrow> UploadFile \<Rightarrow> Session \<Rightarrow> world \<Rightarrow> (exn + FileUploadResponse) \<times> Session \<times> world" where
  "upload_document e file db w =
     (case filename file of
        None \<Rightarrow> (Inl (HTTPException HTTP_400_BAD_REQUEST ''No filename provided''), db, w)
      | Some fname \<Rightarrow>
          if fname = [] then
            (Inl (HTTPException HTTP_400_BAD_REQUEST ''No filename provided''), db, w)
          else
            (case upload_try e file fname db w of
               (Inr r, fp, db', w') \<Rightarrow> (Inr r, db', w')
             | (Inl (SQLAlchemyError m), fp, db', w') \<Rightarrow>
                 (case db_rollback db' w' of
                    (db'', w'') \<Rightarrow>
                      (case fp of
                         None \<Rightarrow>
                           (Inl (OtherError ''UnboundLocalError''), db'', w'')
                       | Some file_path \<Rightarrow>
                           (Inl (HTTPException HTTP_500_INTERNAL_SERVER_ERROR
                                   (''Database error: '' @ str (SQLAlchemyError m))),
                            db'',
                            if path_exists w'' file_path then unlink file_path w'' else w'')))
             | (Inl x, fp, db', w') \<Rightarrow>
                 (case db_rollback db' w' of
                    (db'', w'') \<Rightarrow>
                      (Inl (HTTPException HTTP_500_INTERNAL_SERVER_ERROR
                              (''Error uploading file: '' @ str x)),
                       db'', w''))))"

definition from_orm :: "File \<Rightarrow> FileMetadata" where
  "from_orm r =
     \<lparr>FileMetadata.id = File.id r,
      FileMetadata.original_filename = File.original_filename r,
      FileMetadata.system_filename = File.system_filename r,
      FileMetadata.file_size_bytes = File.file_size_bytes r,
      FileMetadata.uploaded_at = Some (File.uploaded_at r)\<rparr>"

definition get_files ::
  "env \<Rightarrow> Session \<Rightarrow> world \<Rightarrow> (exn + FileListResponse) \<times> Session \<times> world" where
  "get_files e db w =
     (case db_query_all e w of
        Inr rows \<Rightarrow>
          (let file_metadata_list = map from_orm rows
           in (Inr \<lparr>files = file_metadata_list, count = int (length file_metadata_list)\<rparr>,
               db, w))
      | Inl (SQLAlchemyError m) \<Rightarrow>
          (Inl (HTTPException HTTP_500_INTERNAL_SERVER_ERROR
                  (''Database error: '' @ str (SQLAlchemyError m))), db, w)
      | Inl x \<Rightarrow>
          (Inl (HTTPException HTTP_500_INTERNAL_SERVER_ERROR
                  (''Error retrieving files: '' @ str x)), db, w))"

section \<open>The routes\<close>

text \<open>
  What the client sees: a status code and a body. An \<^verbatim>\<open>HTTPException\<close> becomes its
  status code and \<^verbatim>\<open>{"detail": ...}\<close>; a result becomes the route's success status and
  the serialised model.
\<close>

datatype body =
    Upload FileUploadResponse
  | Listing FileListResponse
  | Detail string
  | ValidationErrors

record response =
  status_code :: nat
  body :: body

definition HTTP_200_OK :: nat where "HTTP_200_OK = 200"
definition HTTP_422_UNPROCESSABLE_ENTITY :: nat where "HTTP_422_UNPROCESSABLE_ENTITY = 422"

fun respond :: "nat \<Rightarrow> ('a \<Rightarrow> body) \<Rightarrow> exn + 'a \<Rightarrow> response" where
  "respond ok enc (Inr r) = \<lparr>status_code = ok, body = enc r\<rparr>"
| "respond ok enc (Inl (HTTPException s d)) = \<lparr>status_code = s, body = Detail d\<rparr>"
| "respond ok enc (Inl x) =
     \<lparr>status_code = HTTP_500_INTERNAL_SERVER_ERROR, body = Detail ''Internal Server Error''\<rparr>"

text \<open>
  The multipart body of \<^verbatim>\<open>POST /upload-document\<close>: the parameter
  \<^verbatim>\<open>file: UploadFile = File(...)\<close> is required, so a request without the part does not
  reach \<^verbatim>\<open>upload_document\<close>; the framework answers it with its validation error, after
  the dependency \<^verbatim>\<open>get_db\<close> has been entered.
\<close>

datatype multipart = NoFilePart | FilePart UploadFile

definition post_upload_document :: "env \<Rightarrow> multipart \<Rightarrow> world \<Rightarrow> response \<times> world" where
  "post_upload_document e req w =
     (case req of
        NoFilePart \<Rightarrow>
          (case get_db (\<lambda>db w'. ((), db, w')) w of
             (u, w') \<Rightarrow>
               (\<lparr>status_code = HTTP_422_UNPROCESSABLE_ENTITY, body = ValidationErrors\<rparr>, w'))
      | FilePart file \<Rightarrow>
          (case get_db (upload_document e file) w of
             (r, w') \<Rightarrow> (respond HTTP_201_CREATED Upload r, w')))"

definition get_files_route :: "env \<Rightarrow> world \<Rightarrow> response \<times> world" where
  "get_files_route e w =
     (case get_db (get_files e) w of
        (r, w') \<Rightarrow> (respond HTTP_200_OK Listing r, w'))"

section \<open>Notions used in the statements\<close>

text \<open>The events of the log that acquire or release a store session.\<close>

definition is_session_event :: "event \<Rightarrow> bool" where
  "is_session_event ev =
     (case ev of SessionOpened k \<Rightarrow> True | SessionClosed k \<Rightarrow> True | _ \<Rightarrow> False)"

text \<open>
  The extension as the specification words it: the substring starting at the last
  \<^verbatim>\<open>.\<close> of the string, or the empty string if it has none.
\<close>

definition spec_extension :: "string \<Rightarrow> string" where
  "spec_extension s =
     (if CHR ''.'' \<in> set s then CHR ''.'' # rev (takeWhile (\<lambda>x. x \<noteq> CHR ''.'') (rev s))
      else [])"

text \<open>
  A concrete situation: a store that holds one earlier upload, an environment in which
  nothing fails, and an upload of four bytes named \<^verbatim>\<open>report.pdf\<close>.
\<close>

definition example_env :: env where
  "example_env =
     \<lparr>uuid4 = ''6f1c2a9e-58b3-4d0a-9c1e-2b7f4a3d5e60'', utcnow = 1761825600,
      fs_error = None, commit_error = None, query_error = None\<rparr>"

definition example_world :: world where
  "example_world =
     \<lparr>disk = [''backend/uploaded_files/0d9e8c7b-1a2f-4b3c-8d4e-5f6a7b8c9d0e.txt'' \<mapsto> [104, 105]],
      table_files =
        [\<lparr>File.id = 1, File.original_filename = ''notes.txt'',
          File.system_filename = ''0d9e8c7b-1a2f-4b3c-8d4e-5f6a7b8c9d0e.txt'',
          File.file_size_bytes = 2, File.uploaded_at = 1761822000\<rparr>],
      next_sid = 7, events = []\<rparr>"

definition example_upload :: UploadFile where
  "example_upload = \<lparr>filename = Some ''report.pdf'', content = [37, 80, 68, 70]\<rparr>"

text \<open>
  Two more environments: one whose token repeats the storage name already in the table,
  and one whose commit raises an exception that is not an \<^verbatim>\<open>SQLAlchemyError\<close>.
\<close>

definition example_env_duplicate :: env where
  "example_env_duplicate = example_env\<lparr>uuid4 := ''0d9e8c7b-1a2f-4b3c-8d4e-5f6a7b8c9d0e''\<rparr>"

definition example_env_crash :: env where
  "example_env_crash = example_env\<lparr>commit_error := Some (OtherError ''out of memory'')\<rparr>"

text \<open>A table of three rows that are not in the order of their timestamps.\<close>

definition example_rows :: "File list" where
  "example_rows =
     [\<lparr>File.id = 1, File.original_filename = ''a.txt'', File.system_filename = ''u1.txt'',
       File.file_size_bytes = 2, File.uploaded_at = 20\<rparr>,
      \<lparr>File.id = 2, File.original_filename = ''b.txt'', File.system_filename = ''u2.txt'',
       File.file_size_bytes = 5, File.uploaded_at = 30\<rparr>,
      \<lparr>File.id = 3, File.original_filename = ''c.txt'', File.system_filename = ''u3.txt'',
       File.file_size_bytes = 7, File.uploaded_at = 10\<rparr>]"

text \<open>An upload whose filename has a dot only in a directory part.\<close>

definition example_upload_nested :: UploadFile where
  "example_upload_nested = \<lparr>filename = Some ''a.b/c'', content = [1]\<rparr>"

text \<open>
  The name of a path as the amended claim C6 words it: the string is cut at every
  \<^verbatim>\<open>/\<close>, the pieces that are empty or a single \<^verbatim>\<open>.\<close> are discarded, and the name is
  the last piece that remains, or the empty string if none remains.
\<close>

fun cut_at :: "char \<Rightarrow> string \<Rightarrow> string \<Rightarrow> string list" where
  "cut_at c acc [] = [rev acc]"
| "cut_at c acc (x # xs) = (if x = c then rev acc # cut_at c [] xs else cut_at c (x # acc) xs)"

definition spec_component :: "string \<Rightarrow> string" where
  "spec_component s =
     (case rev (filter (\<lambda>p. p \<noteq> [] \<and> p \<noteq> ''.'') (cut_at CHR ''/'' [] s)) of
        [] \<Rightarrow> []
      | p # ps \<Rightarrow> p)"

text \<open>
  An upload whose storage name would be longer than 255 bytes, and an environment in
  which \<^verbatim>\<open>open\<close> raises the \<^verbatim>\<open>OSError\<close> of a file system that refuses such a name.
\<close>

definition example_env_name_too_long :: env where
  "example_env_name_too_long =
     example_env\<lparr>fs_error := Some (OpenFails ''[Errno 36] File name too long'')\<rparr>"

definition example_upload_long_name :: UploadFile where
  "example_upload_long_name =
     \<lparr>filename = Some (''a.'' @ replicate 250 CHR ''x''), content = [1]\<rparr>"

section \<open>Auxiliary facts\<close>

lemmas http_codes =
  HTTP_200_OK_def HTTP_201_CREATED_def HTTP_400_BAD_REQUEST_def
  HTTP_422_UNPROCESSABLE_ENTITY_def HTTP_500_INTERNAL_SERVER_ERROR_def

lemma le_max_id: "r \<in> set rs \<Longrightarrow> File.id r \<le> max_id rs"
  by (induction rs) auto

lemma max_id_fresh: "max_id rs + 1 \<notin> set (map File.id rs)"
  using le_max_id by fastforce

lemma find_skip:
  "\<forall>x\<in>set xs. \<not> P x \<Longrightarrow> P y \<Longrightarrow> find P (xs @ [y]) = Some y"
  by (induction xs) auto

lemma find_fresh_id:
  assumes "File.id r = max_id rs + 1"
  shows "find (\<lambda>x. File.id x = max_id rs + 1) (rs @ [r]) = Some r"
proof -
  have "\<forall>x\<in>set rs. \<not> File.id x = max_id rs + 1"
    using le_max_id by fastforce
  then show ?thesis using assms by (rule find_skip)
qed

lemma suffix_report: "suffix ''report.pdf'' = ''.pdf''"
  by (simp add: suffix_def path_name_def path_tail_def rfind_def)

subsection \<open>The \<^verbatim>\<open>try\<close> block when nothing fails\<close>

lemma upload_try_ok:
  assumes "c = content file" "c \<noteq> []" "int (length c) \<le> MAX_FILE_SIZE"
      and "fs_error e = None" "commit_error e = None"
      and "uuid4 e @ suffix fname \<notin> set (map File.system_filename (table_files w))"
      and "pending db = []"
  shows "upload_try e file fname db w =
     (Inr \<lparr>message = ''File uploaded successfully'', file_id = max_id (table_files w) + 1\<rparr>,
      Some (path_join UPLOAD_DIR (uuid4 e @ suffix fname)),
      db,
      w\<lparr>disk := (disk w)(path_join UPLOAD_DIR (uuid4 e @ suffix fname) \<mapsto> c),
        table_files := table_files w @
          [\<lparr>File.id = max_id (table_files w) + 1,
            File.original_filename = fname,
            File.system_filename = uuid4 e @ suffix fname,
            File.file_size_bytes = int (length c),
            File.uploaded_at = utcnow e\<rparr>],
        events := events w @ [FileWritten (path_join UPLOAD_DIR (uuid4 e @ suffix fname)),
                              Committed [max_id (table_files w) + 1]]\<rparr>)"
  using assms
    find_fresh_id [of "\<lparr>File.id = max_id (table_files w) + 1,
            File.original_filename = fname,
            File.system_filename = uuid4 e @ suffix fname,
            File.file_size_bytes = int (length c),
            File.uploaded_at = utcnow e\<rparr>" "table_files w"]
  by (simp add: upload_try_def write_file_def db_add_def db_commit_def db_refresh_def
      identity_key_def Let_def)

lemma post_upload_ok:
  assumes "filename file = Some fname" "fname \<noteq> []"
      and "content file \<noteq> []" "int (length (content file)) \<le> MAX_FILE_SIZE"
      and "fs_error e = None" "commit_error e = None"
      and "uuid4 e @ suffix fname \<notin> set (map File.system_filename (table_files w))"
  shows "post_upload_document e (FilePart file) w =
     (\<lparr>status_code = 201,
       body = Upload \<lparr>message = ''File uploaded successfully'',
                      file_id = max_id (table_files w) + 1\<rparr>\<rparr>,
      w\<lparr>disk := (disk w)(path_join UPLOAD_DIR (uuid4 e @ suffix fname) \<mapsto> content file),
        table_files := table_files w @
          [\<lparr>File.id = max_id (table_files w) + 1,
            File.original_filename = fname,
            File.system_filename = uuid4 e @ suffix fname,
            File.file_size_bytes = int (length (content file)),
            File.uploaded_at = utcnow e\<rparr>],
        next_sid := Suc (next_sid w),
        events := events w @
          [SessionOpened (next_sid w),
           FileWritten (path_join UPLOAD_DIR (uuid4 e @ suffix fname)),
           Committed [max_id (table_files w) + 1],
           SessionClosed (next_sid w)]\<rparr>)"
proof -
  obtain db w1 where s: "SessionLocal w = (db, w1)" by (cases "SessionLocal w")
  then have db: "pending db = []" "sid db = next_sid w"
    and w1: "w1 = w\<lparr>next_sid := Suc (next_sid w),
                     events := events w @ [SessionOpened (next_sid w)]\<rparr>"
    by (auto simp: SessionLocal_def)
  have "uuid4 e @ suffix fname \<notin> set (map File.system_filename (table_files w1))"
    using assms(7) w1 by simp
  from upload_try_ok [OF refl assms(3,4,5,6) this db(1)]
  show ?thesis
    using assms(1,2) s db(2) w1
    by (simp add: post_upload_document_def get_db_def upload_document_def db_close_def
        http_codes)
qed

subsection \<open>The \<^verbatim>\<open>try\<close> block when a check or the commit raises\<close>

lemma dec_400: "dec 400 = ''400''"
  by code_simp

lemma session_local:
  "SessionLocal w =
     (\<lparr>sid = next_sid w, pending = []\<rparr>,
      w\<lparr>next_sid := Suc (next_sid w), events := events w @ [SessionOpened (next_sid w)]\<rparr>)"
  by (simp add: SessionLocal_def)

lemma post_upload_empty:
  assumes "filename file = Some fname" "fname \<noteq> []" "content file = []"
  shows "post_upload_document e (FilePart file) w =
     (\<lparr>status_code = 500,
       body = Detail ''Error uploading file: 400: Empty file is not allowed''\<rparr>,
      w\<lparr>next_sid := Suc (next_sid w),
        events := events w @
          [SessionOpened (next_sid w), RolledBack (next_sid w), SessionClosed (next_sid w)]\<rparr>)"
  using assms
  by (simp add: post_upload_document_def get_db_def session_local upload_document_def
      upload_try_def db_rollback_def db_close_def http_codes dec_400 MAX_FILE_SIZE_def)

lemma post_upload_too_large:
  assumes "filename file = Some fname" "fname \<noteq> []"
      and "int (length (content file)) > MAX_FILE_SIZE"
  shows "post_upload_document e (FilePart file) w =
     (\<lparr>status_code = 500,
       body = Detail ''Error uploading file: 400: File too large. Maximum size is 50 MB''\<rparr>,
      w\<lparr>next_sid := Suc (next_sid w),
        events := events w @
          [SessionOpened (next_sid w), RolledBack (next_sid w), SessionClosed (next_sid w)]\<rparr>)"
  using assms
  by (simp add: post_upload_document_def get_db_def session_local upload_document_def
      upload_try_def db_rollback_def db_close_def http_codes dec_400)

lemma suffix_notes: "suffix ''notes.txt'' = ''.txt''"
  by (simp add: suffix_def path_name_def path_tail_def rfind_def)

lemma flush_duplicate:
  "new_system_filename n \<in> set (map File.system_filename rows) \<Longrightarrow>
   flush e [n] rows = Inl (SQLAlchemyError UNIQUE_failed)"
  by simp

lemma upload_try_store_error:
  assumes "c = content file" "c \<noteq> []" "int (length c) \<le> MAX_FILE_SIZE"
      and "fs_error e = None"
      and "commit_error e = Some (SQLAlchemyError m) \<or>
           (commit_error e = None \<and> m = UNIQUE_failed \<and>
            uuid4 e @ suffix fname \<in> set (map File.system_filename (table_files w)))"
      and "pending db = []"
  shows "upload_try e file fname db w =
     (Inl (SQLAlchemyError m),
      Some (path_join UPLOAD_DIR (uuid4 e @ suffix fname)),
      db\<lparr>pending := [\<lparr>new_original_filename = fname,
                       new_system_filename = uuid4 e @ suffix fname,
                       new_file_size_bytes = int (length c)\<rparr>]\<rparr>,
      w\<lparr>disk := (disk w)(path_join UPLOAD_DIR (uuid4 e @ suffix fname) \<mapsto> c),
        events := events w @ [FileWritten (path_join UPLOAD_DIR (uuid4 e @ suffix fname))]\<rparr>)"
  using assms
  by (auto simp: upload_try_def write_file_def db_add_def db_commit_def Let_def)

lemma upload_try_commit_raises:
  assumes "c = content file" "c \<noteq> []" "int (length c) \<le> MAX_FILE_SIZE"
      and "fs_error e = None" "commit_error e = Some x"
      and "pending db = []"
  shows "upload_try e file fname db w =
     (Inl x,
      Some (path_join UPLOAD_DIR (uuid4 e @ suffix fname)),
      db\<lparr>pending := [\<lparr>new_original_filename = fname,
                       new_system_filename = uuid4 e @ suffix fname,
                       new_file_size_bytes = int (length c)\<rparr>]\<rparr>,
      w\<lparr>disk := (disk w)(path_join UPLOAD_DIR (uuid4 e @ suffix fname) \<mapsto> c),
        events := events w @ [FileWritten (path_join UPLOAD_DIR (uuid4 e @ suffix fname))]\<rparr>)"
  using assms
  by (auto simp: upload_try_def write_file_def db_add_def db_commit_def Let_def)

lemma post_upload_open_fails:
  assumes "filename file = Some fname" "fname \<noteq> []"
      and "content file \<noteq> []" "int (length (content file)) \<le> MAX_FILE_SIZE"
      and "fs_error e = Some (OpenFails msg)"
  shows "post_upload_document e (FilePart file) w =
     (\<lparr>status_code = 500, body = Detail (''Error uploading file: '' @ msg)\<rparr>,
      w\<lparr>next_sid := Suc (next_sid w),
        events := events w @
          [SessionOpened (next_sid w), RolledBack (next_sid w), SessionClosed (next_sid w)]\<rparr>)"
  using assms
  by (simp add: post_upload_document_def get_db_def session_local upload_document_def
      upload_try_def write_file_def db_rollback_def db_close_def http_codes Let_def)

subsection \<open>The handlers leave the sessions alone\<close>

lemma upload_document_unfold:
  assumes "filename file = Some fname" "fname \<noteq> []"
      and "upload_try e file fname db w = (r0, fp, db', w')"
  shows "upload_document e file db w =
     (case r0 of
        Inr r \<Rightarrow> (Inr r, db', w')
      | Inl (SQLAlchemyError m) \<Rightarrow>
          (case fp of
             None \<Rightarrow> (Inl (OtherError ''UnboundLocalError''), fst (db_rollback db' w'),
                        snd (db_rollback db' w'))
           | Some file_path \<Rightarrow>
               (Inl (HTTPException 500 (''Database error: '' @ m)),
                fst (db_rollback db' w'),
                if path_exists (snd (db_rollback db' w')) file_path
                then unlink file_path (snd (db_rollback db' w'))
                else snd (db_rollback db' w')))
      | Inl x \<Rightarrow>
          (Inl (HTTPException 500 (''Error uploading file: '' @ str x)),
           fst (db_rollback db' w'), snd (db_rollback db' w')))"
proof (cases r0)
  case (Inl x)
  then show ?thesis
    using assms by (cases x; cases fp) (simp_all add: upload_document_def http_codes split: prod.splits)
next
  case (Inr r)
  then show ?thesis using assms by (simp add: upload_document_def)
qed

lemma write_file_sessions:
  assumes "write_file e p c w = (x, w1)"
  shows "filter is_session_event (events w1) = filter is_session_event (events w)
         \<and> next_sid w1 = next_sid w"
  using assms
  by (cases "fs_error e")
     (auto simp: write_file_def is_session_event_def split: fs_fault.splits)

lemma db_commit_sessions:
  assumes "db_commit e db w = Inr (ids, db2, w2)"
  shows "filter is_session_event (events w2) = filter is_session_event (events w)
         \<and> sid db2 = sid db \<and> next_sid w2 = next_sid w"
proof (cases "commit_error e")
  case None
  show ?thesis
  proof (cases "flush e (pending db) (table_files w)")
    case (Inl x)
    then show ?thesis using assms None by (simp add: db_commit_def)
  next
    case (Inr p)
    then show ?thesis
      using assms None by (cases p) (auto simp: db_commit_def is_session_event_def)
  qed
next
  case (Some x)
  then show ?thesis using assms by (simp add: db_commit_def)
qed

lemma upload_try_sessions:
  assumes "upload_try e file fname db w = (r0, fp, db', w')"
  shows "filter is_session_event (events w') = filter is_session_event (events w)
         \<and> sid db' = sid db \<and> next_sid w' = next_sid w"
proof (cases "int (length (content file)) > MAX_FILE_SIZE \<or> length (content file) = 0")
  case True
  have "upload_try e file fname db w =
      (Inl (HTTPException HTTP_400_BAD_REQUEST ''File too large. Maximum size is 50 MB''),
       None, db, w) \<or>
    upload_try e file fname db w =
      (Inl (HTTPException HTTP_400_BAD_REQUEST ''Empty file is not allowed''), None, db, w)"
  proof (cases "int (length (content file)) > MAX_FILE_SIZE")
    case True
    then show ?thesis by (simp add: upload_try_def)
  next
    case False
    then have "length (content file) = 0" using True by simp
    then show ?thesis using False by (simp add: upload_try_def)
  qed
  then show ?thesis using assms by auto
next
  case False
  let ?p = "path_join UPLOAD_DIR (uuid4 e @ suffix fname)"
  let ?n = "\<lparr>new_original_filename = fname, new_system_filename = uuid4 e @ suffix fname,
             new_file_size_bytes = int (length (content file))\<rparr>"
  obtain x w1 where wf: "write_file e ?p (content file) w = (x, w1)"
    by (cases "write_file e ?p (content file) w")
  note s1 = write_file_sessions [OF wf]
  show ?thesis
  proof (cases x)
    case (Some y)
    then show ?thesis
      using assms False wf s1 by (auto simp: upload_try_def Let_def)
  next
    case None
    show ?thesis
    proof (cases "db_commit e (db_add db ?n) w1")
      case (Inl y)
      then show ?thesis
        using assms False wf s1 None by (auto simp: upload_try_def Let_def db_add_def)
    next
      case (Inr q)
      obtain ids db2 w2 where q: "q = (ids, db2, w2)" by (cases q)
      note s2 = db_commit_sessions [OF Inr [unfolded q]]
      show ?thesis
        using assms False wf s1 s2 None Inr q
        by (cases "db_refresh w2 (identity_key ids)")
           (auto simp: upload_try_def Let_def db_add_def)
    qed
  qed
qed

lemma pair_eq_sel: "((a, b) = p) = (a = fst p \<and> b = snd p)"
  by auto

lemma db_rollback_sessions:
  "filter is_session_event (events (snd (db_rollback db w))) = filter is_session_event (events w)
   \<and> sid (fst (db_rollback db w)) = sid db
   \<and> next_sid (snd (db_rollback db w)) = next_sid w"
  by (simp add: db_rollback_def is_session_event_def)

lemma unlink_sessions:
  "filter is_session_event (events (unlink p w)) = filter is_session_event (events w)
   \<and> next_sid (unlink p w) = next_sid w"
  by (simp add: unlink_def is_session_event_def)

lemma upload_document_sessions:
  assumes "upload_document e file db w = (r, db', w')"
  shows "filter is_session_event (events w') = filter is_session_event (events w)
         \<and> sid db' = sid db \<and> next_sid w' = next_sid w"
proof (cases "filename file")
  case None
  then have "upload_document e file db w =
      (Inl (HTTPException HTTP_400_BAD_REQUEST ''No filename provided''), db, w)"
    by (simp add: upload_document_def)
  then show ?thesis using assms by simp
next
  case (Some fname)
  show ?thesis
  proof (cases "fname = []")
    case True
    then have "upload_document e file db w =
        (Inl (HTTPException HTTP_400_BAD_REQUEST ''No filename provided''), db, w)"
      using Some by (simp add: upload_document_def)
    then show ?thesis using assms by simp
  next
    case False
    obtain r0 fp db0 w0 where t: "upload_try e file fname db w = (r0, fp, db0, w0)"
      by (metis prod_cases4)
    note s = upload_try_sessions [OF t]
    note rb = db_rollback_sessions [of db0 w0]
    note ul = unlink_sessions [of _ "snd (db_rollback db0 w0)"]
    note u = upload_document_unfold [OF Some False t, unfolded assms]
    show ?thesis
    proof (cases r0)
      case (Inr r')
      then show ?thesis using u s by simp
    next
      case (Inl y)
      show ?thesis
      proof (cases y)
        case (HTTPException c d)
        then show ?thesis using u s rb Inl by (simp add: pair_eq_sel)
      next
        case (OtherError m)
        then show ?thesis using u s rb Inl by (simp add: pair_eq_sel)
      next
        case (SQLAlchemyError m)
        show ?thesis
        proof (cases fp)
          case None
          then show ?thesis using u s rb Inl SQLAlchemyError by (simp add: pair_eq_sel)
        next
          case (Some q)
          then show ?thesis
            using u s rb ul [of q] Inl SQLAlchemyError
            by (cases "path_exists (snd (db_rollback db0 w0)) q") (simp_all add: pair_eq_sel)
        qed
      qed
    qed
  qed
qed

lemma get_files_sessions:
  assumes "get_files e db w = (r, db', w')"
  shows "db' = db \<and> w' = w"
  using assms
  by (auto simp: get_files_def Let_def split: sum.splits exn.splits)

lemma get_db_sessions:
  assumes "\<And>db w1 r db' w'. handler db w1 = (r, db', w') \<Longrightarrow>
             filter is_session_event (events w') = filter is_session_event (events w1)
             \<and> sid db' = sid db"
  shows "filter is_session_event (events (snd (get_db handler w))) =
           filter is_session_event (events w) @
             [SessionOpened (next_sid w), SessionClosed (next_sid w)]
         \<and> last (events (snd (get_db handler w))) = SessionClosed (next_sid w)"
proof -
  let ?db = "\<lparr>sid = next_sid w, pending = []\<rparr>"
  let ?w1 = "w\<lparr>next_sid := Suc (next_sid w), events := events w @ [SessionOpened (next_sid w)]\<rparr>"
  obtain r db' w' where b: "handler ?db ?w1 = (r, db', w')" by (metis prod_cases3)
  from assms [OF b] show ?thesis
    using b by (simp add: get_db_def session_local db_close_def is_session_event_def)
qed

subsection \<open>The order of the listing\<close>

lemma sorted_desc:
  "sorted_wrt (\<lambda>a b. File.uploaded_at b \<le> File.uploaded_at a) (order_by_uploaded_at_desc rows)"
proof -
  have "sorted_wrt (\<lambda>a b. File.uploaded_at a \<le> File.uploaded_at b)
          (sort_key File.uploaded_at rows)"
    using sorted_sort_key [of File.uploaded_at rows] by (simp add: sorted_map)
  then show ?thesis
    by (simp add: order_by_uploaded_at_desc_def sorted_wrt_rev)
qed

subsection \<open>Only a valid upload is answered with 201\<close>

lemma upload_try_Inr:
  assumes "fst (upload_try e file fname db w) = Inr r" "pending db = []"
  shows "content file \<noteq> [] \<and> int (length (content file)) \<le> MAX_FILE_SIZE \<and>
         fs_error e = None \<and> commit_error e = None \<and>
         uuid4 e @ suffix fname \<notin> set (map File.system_filename (table_files w))"
  using assms
  by (auto simp: upload_try_def write_file_def db_add_def db_commit_def Let_def
      split: if_splits option.splits fs_fault.splits sum.splits prod.splits)

lemma upload_document_Inr:
  assumes "fst (upload_document e file db w) = Inr r"
  shows "\<exists>fname. filename file = Some fname \<and> fname \<noteq> [] \<and>
           fst (upload_try e file fname db w) = Inr r"
proof (cases "filename file")
  case None
  then show ?thesis using assms by (simp add: upload_document_def)
next
  case (Some fname)
  show ?thesis
  proof (cases "fname = []")
    case True
    then show ?thesis using assms Some by (simp add: upload_document_def)
  next
    case False
    obtain r0 fp db' w' where t: "upload_try e file fname db w = (r0, fp, db', w')"
      by (metis prod_cases4)
    show ?thesis
    proof (cases r0)
      case (Inl x)
      then show ?thesis
        using assms upload_document_unfold [OF Some False t]
        by (cases x; cases fp) simp_all
    next
      case (Inr r')
      then show ?thesis
        using assms upload_document_unfold [OF Some False t] Some False t by simp
    qed
  qed
qed

lemma upload_document_Inl:
  assumes "fst (upload_document e file db w) = Inl x"
  shows "status_code (respond HTTP_201_CREATED enc (Inl x)) \<noteq> 201"
proof (cases "filename file")
  case None
  then show ?thesis using assms by (auto simp: upload_document_def http_codes)
next
  case (Some fname)
  show ?thesis
  proof (cases "fname = []")
    case True
    then show ?thesis using assms Some by (auto simp: upload_document_def http_codes)
  next
    case False
    obtain r0 fp db' w' where t: "upload_try e file fname db w = (r0, fp, db', w')"
      by (metis prod_cases4)
    show ?thesis
    proof (cases r0)
      case (Inl y)
      then show ?thesis
        using assms upload_document_unfold [OF Some False t]
        by (cases y; cases fp) (auto simp: http_codes)
    next
      case (Inr r')
      then show ?thesis
        using assms upload_document_unfold [OF Some False t] by simp
    qed
  qed
qed

lemma created_only_when_valid:
  assumes "status_code (fst (post_upload_document e (FilePart file) w)) = 201"
  shows "\<exists>fname. filename file = Some fname \<and> fname \<noteq> [] \<and>
           content file \<noteq> [] \<and> int (length (content file)) \<le> MAX_FILE_SIZE \<and>
           fs_error e = None \<and> commit_error e = None \<and>
           uuid4 e @ suffix fname \<notin> set (map File.system_filename (table_files w))"
proof -
  let ?db = "\<lparr>sid = next_sid w, pending = []\<rparr>"
  let ?w1 = "w\<lparr>next_sid := Suc (next_sid w), events := events w @ [SessionOpened (next_sid w)]\<rparr>"
  obtain r db' w' where u: "upload_document e file ?db ?w1 = (r, db', w')"
    by (metis prod_cases3)
  then have st: "status_code (respond HTTP_201_CREATED Upload r) = 201"
    using assms by (simp add: post_upload_document_def get_db_def session_local)
  show ?thesis
  proof (cases r)
    case (Inl x)
    then show ?thesis
      using st upload_document_Inl [of e "file" ?db ?w1 x Upload] u by simp
  next
    case (Inr v)
    then have "fst (upload_document e file ?db ?w1) = Inr v" using u by simp
    from upload_document_Inr [OF this] obtain fname where
      f: "filename file = Some fname" "fname \<noteq> []"
         "fst (upload_try e file fname ?db ?w1) = Inr v" by blast
    from upload_try_Inr [OF f(3)] f(1,2) show ?thesis by simp
  qed
qed

subsection \<open>The suffix of a filename\<close>

lemma suffix_nested: "suffix ''a.b/c'' = []"
  by (simp add: suffix_def path_name_def path_tail_def rfind_def)

lemma rfind_last:
  assumes "c \<notin> set zs"
  shows "rfind c (ys @ c # zs) = int (length ys)"
proof -
  have "takeWhile (\<lambda>x. x \<noteq> c) (rev zs @ c # rev ys) = rev zs"
    using assms by (subst takeWhile_append2) auto
  then show ?thesis by (simp add: rfind_def)
qed

lemma spec_extension_last:
  assumes "CHR ''.'' \<notin> set zs"
  shows "spec_extension (ys @ CHR ''.'' # zs) = CHR ''.'' # zs"
proof -
  have "takeWhile (\<lambda>x. x \<noteq> CHR ''.'') (rev zs @ CHR ''.'' # rev ys) = rev zs"
    using assms by (subst takeWhile_append2) auto
  then show ?thesis by (simp add: spec_extension_def)
qed

lemma suffix_characterised:
  "suffix s =
     (if CHR ''.'' \<in> set (tl (path_name s)) \<and> last (path_name s) \<noteq> CHR ''.''
      then spec_extension (path_name s) else [])"
proof (cases "CHR ''.'' \<in> set (path_name s)")
  case False
  then have "CHR ''.'' \<notin> set (tl (path_name s))"
    by (cases "path_name s") auto
  then show ?thesis using False by (simp add: suffix_def rfind_def)
next
  case True
  then obtain ys zs where n: "path_name s = ys @ CHR ''.'' # zs" and z: "CHR ''.'' \<notin> set zs"
    by (meson split_list_last)
  have a: "CHR ''.'' \<in> set (tl (path_name s)) \<longleftrightarrow> ys \<noteq> []"
    using n z by (cases ys) auto
  have b: "last (path_name s) \<noteq> CHR ''.'' \<longleftrightarrow> zs \<noteq> []"
  proof (cases "zs = []")
    case True
    then show ?thesis using n by simp
  next
    case False
    then have "last (path_name s) \<in> set zs" using n by simp
    then show ?thesis using z False by auto
  qed
  have "suffix s = (if ys \<noteq> [] \<and> zs \<noteq> [] then CHR ''.'' # zs else [])"
    using rfind_last [OF z, of ys] n by (simp add: suffix_def Let_def)
  then show ?thesis
    using a b spec_extension_last [OF z, of ys] n by simp
qed

lemma upload_try_file_path:
  assumes "content file \<noteq> []" "int (length (content file)) \<le> MAX_FILE_SIZE"
  shows "fst (snd (upload_try e file fname db w)) =
           Some (path_join UPLOAD_DIR (uuid4 e @ suffix fname))"
  using assms
  by (simp add: upload_try_def Let_def split: prod.splits option.splits sum.splits)

lemma split_not_Nil: "split c s \<noteq> []"
  by (induction s) (auto split: list.splits)

lemma cut_at_split:
  "cut_at c acc s = (rev acc @ hd (split c s)) # tl (split c s)"
proof (induction s arbitrary: acc)
  case Nil
  then show ?case by simp
next
  case (Cons x xs)
  then show ?case
    using split_not_Nil [of c xs] by (cases "split c xs") auto
qed

lemma cut_at_is_split: "cut_at c [] s = split c s"
  using cut_at_split [of c "[]" s] split_not_Nil [of c s] by simp

lemma spec_component_path_name: "spec_component s = path_name s"
proof -
  have a: "(case xs of [] \<Rightarrow> [] | p # ps \<Rightarrow> last (p # ps)) = (if xs = [] then [] else last xs)"
    for xs :: "string list"
    by (cases xs) simp_all
  have b: "(case rev xs of [] \<Rightarrow> [] | p # ps \<Rightarrow> p) = (if xs = [] then [] else last xs)"
    for xs :: "string list"
    by (cases xs rule: rev_cases) simp_all
  show ?thesis
    by (simp only: spec_component_def path_name_def path_tail_def cut_at_is_split a b)
qed

section \<open>The upload of a valid file\<close>

text \<open>
  Claim C1, as stated: every upload with a non-empty filename whose payload is
  non-empty and at most \<open>MAX_FILE_SIZE\<close> bytes long succeeds. It fails for a one-byte
  payload named \<^verbatim>\<open>a.\<close> followed by 250 times \<^verbatim>\<open>x\<close>: the storage name, the token
  and this extension, is longer than a file name may be, \<^verbatim>\<open>open\<close> raises, and the
  clause \<^verbatim>\<open>except Exception\<close> answers 500; disk and table stay as they were.
\<close>

theorem valid_upload_answered_500:
  "status_code (fst (post_upload_document example_env_name_too_long
      (FilePart example_upload_long_name) example_world)) = 500
   \<and> disk (snd (post_upload_document example_env_name_too_long
      (FilePart example_upload_long_name) example_world)) = disk example_world
   \<and> table_files (snd (post_upload_document example_env_name_too_long
      (FilePart example_upload_long_name) example_world)) = table_files example_world"
proof -
  have "post_upload_document example_env_name_too_long (FilePart example_upload_long_name)
      example_world =
     (\<lparr>status_code = 500,
       body = Detail (''Error uploading file: '' @ ''[Errno 36] File name too long'')\<rparr>,
      example_world\<lparr>next_sid := Suc (next_sid example_world),
        events := events example_world @
          [SessionOpened (next_sid example_world), RolledBack (next_sid example_world),
           SessionClosed (next_sid example_world)]\<rparr>)"
    by (rule post_upload_open_fails [where fname = "''a.'' @ replicate 250 CHR ''x''"])
       (simp_all add: example_env_name_too_long_def example_upload_long_name_def
          MAX_FILE_SIZE_def)
  then show ?thesis by simp
qed

text \<open>
  Claim C1, amended. An upload with a non-empty filename whose payload is non-empty and
  at most \<open>MAX_FILE_SIZE\<close> bytes long succeeds when neither the file write nor the
  commit raises and the generated storage name is unused (no file of that name in the
  upload directory, no row with that \<open>system_filename\<close>): the response is 201 with the
  confirmation message and the id the store assigned, an id no earlier row has; the
  disk gains exactly one file, under the generated storage name in the upload
  directory; and the table gains exactly one row, whose \<open>file_size_bytes\<close> is the
  length of the payload.
\<close>

theorem upload_accepted_succeeds:
  assumes "filename file = Some fname" and "fname \<noteq> []"
      and "content file \<noteq> []" and "int (length (content file)) \<le> MAX_FILE_SIZE"
      and "fs_error e = None" and "commit_error e = None"
      and "disk w (path_join UPLOAD_DIR (uuid4 e @ suffix fname)) = None"
      and "uuid4 e @ suffix fname \<notin> set (map File.system_filename (table_files w))"
  shows "post_upload_document e (FilePart file) w =
     (\<lparr>status_code = 201,
       body = Upload \<lparr>message = ''File uploaded successfully'',
                      file_id = max_id (table_files w) + 1\<rparr>\<rparr>,
      w\<lparr>disk := (disk w)(path_join UPLOAD_DIR (uuid4 e @ suffix fname) \<mapsto> content file),
        table_files := table_files w @
          [\<lparr>File.id = max_id (table_files w) + 1,
            File.original_filename = fname,
            File.system_filename = uuid4 e @ suffix fname,
            File.file_size_bytes = int (length (content file)),
            File.uploaded_at = utcnow e\<rparr>],
        next_sid := Suc (next_sid w),
        events := events w @
          [SessionOpened (next_sid w),
           FileWritten (path_join UPLOAD_DIR (uuid4 e @ suffix fname)),
           Committed [max_id (table_files w) + 1],
           SessionClosed (next_sid w)]\<rparr>)
    \<and> dom (disk (snd (post_upload_document e (FilePart file) w))) - dom (disk w)
        = {path_join UPLOAD_DIR (uuid4 e @ suffix fname)}
    \<and> max_id (table_files w) + 1 \<notin> set (map File.id (table_files w))"
proof -
  note eq = post_upload_ok [OF assms(1-6,8)]
  have "dom (disk (snd (post_upload_document e (FilePart file) w))) - dom (disk w)
        = {path_join UPLOAD_DIR (uuid4 e @ suffix fname)}"
    using assms(7) by (auto simp: eq)
  then show ?thesis
    using eq max_id_fresh [of "table_files w"] by simp
qed

theorem upload_accepted_succeeds_witness:
  "post_upload_document example_env (FilePart example_upload) example_world =
     (\<lparr>status_code = 201,
       body = Upload \<lparr>message = ''File uploaded successfully'', file_id = 2\<rparr>\<rparr>,
      example_world
       \<lparr>disk := (disk example_world)
          (''backend/uploaded_files/6f1c2a9e-58b3-4d0a-9c1e-2b7f4a3d5e60.pdf''
             \<mapsto> [37, 80, 68, 70]),
        table_files := table_files example_world @
          [\<lparr>File.id = 2,
            File.original_filename = ''report.pdf'',
            File.system_filename = ''6f1c2a9e-58b3-4d0a-9c1e-2b7f4a3d5e60.pdf'',
            File.file_size_bytes = 4,
            File.uploaded_at = 1761825600\<rparr>],
        next_sid := 8,
        events :=
          [SessionOpened 7,
           FileWritten ''backend/uploaded_files/6f1c2a9e-58b3-4d0a-9c1e-2b7f4a3d5e60.pdf'',
           Committed [2],
           SessionClosed 7]\<rparr>)"
  using upload_accepted_succeeds [of example_upload "''report.pdf''" example_env example_world]
  by (simp add: example_env_def example_world_def example_upload_def suffix_report
      MAX_FILE_SIZE_def UPLOAD_DIR_def path_join_def)

section \<open>Rejected payloads\<close>

text \<open>
  Claim C2. The claim is that an upload with an empty payload is answered with 400 and
  leaves disk and table as they were. Here the handler is run on an empty payload named
  \<^verbatim>\<open>report.pdf\<close>: the \<^verbatim>\<open>HTTPException\<close> with status 400 is raised inside the
  \<^verbatim>\<open>try\<close> block, the clause \<^verbatim>\<open>except Exception\<close> catches it, and the answer is 500.
  Disk and table are unchanged.
\<close>

theorem empty_payload_answered_500:
  "post_upload_document example_env (FilePart \<lparr>filename = Some ''report.pdf'', content = []\<rparr>)
     example_world =
     (\<lparr>status_code = 500,
       body = Detail ''Error uploading file: 400: Empty file is not allowed''\<rparr>,
      example_world\<lparr>next_sid := 8, events := [SessionOpened 7, RolledBack 7, SessionClosed 7]\<rparr>)"
  by (simp add: post_upload_empty example_world_def)

text \<open>
  Claim C3. The claim is that a payload of more than 50 MiB is answered with 400 and
  leaves disk and table as they were, and that a payload of exactly 50 MiB passes. Here
  the handler is run on \<open>50 * 1024 * 1024 + 1\<close> bytes: the answer is 500, for the same
  reason as for the empty payload; disk and table are unchanged. On exactly
  \<open>50 * 1024 * 1024\<close> bytes the upload succeeds.
\<close>

theorem oversized_payload_answered_500:
  "post_upload_document example_env
     (FilePart \<lparr>filename = Some ''report.pdf'', content = replicate 52428801 0\<rparr>)
     example_world =
     (\<lparr>status_code = 500,
       body = Detail ''Error uploading file: 400: File too large. Maximum size is 50 MB''\<rparr>,
      example_world\<lparr>next_sid := 8, events := [SessionOpened 7, RolledBack 7, SessionClosed 7]\<rparr>)
   \<and> status_code (fst (post_upload_document example_env
         (FilePart \<lparr>filename = Some ''report.pdf'', content = replicate 52428800 0\<rparr>)
         example_world)) = 201"
proof -
  have "status_code (fst (post_upload_document example_env
         (FilePart \<lparr>filename = Some ''report.pdf'', content = replicate 52428800 0\<rparr>)
         example_world)) = 201"
    by (subst post_upload_ok [where fname = "''report.pdf''"])
       (simp_all add: MAX_FILE_SIZE_def example_env_def example_world_def suffix_report)
  then show ?thesis
    by (simp add: post_upload_too_large MAX_FILE_SIZE_def example_world_def)
qed

section \<open>Failures after the file was written\<close>

text \<open>
  Claim C4. When the file was written and the insert then fails with a store error,
  either one the commit raises or the violation of the uniqueness of
  \<open>system_filename\<close>, the handler rolls the session back, deletes the file it wrote
  and answers 500 with the text of the store error in the detail; the table is as it
  was before the request.
\<close>

theorem insert_failure_compensated:
  assumes "filename file = Some fname" and "fname \<noteq> []"
      and "content file \<noteq> []" and "int (length (content file)) \<le> MAX_FILE_SIZE"
      and "fs_error e = None"
      and "commit_error e = Some (SQLAlchemyError m) \<or>
           (commit_error e = None \<and> m = UNIQUE_failed \<and>
            uuid4 e @ suffix fname \<in> set (map File.system_filename (table_files w)))"
  shows "post_upload_document e (FilePart file) w =
     (\<lparr>status_code = 500, body = Detail (''Database error: '' @ m)\<rparr>,
      w\<lparr>disk := (disk w)(path_join UPLOAD_DIR (uuid4 e @ suffix fname) := None),
        next_sid := Suc (next_sid w),
        events := events w @
          [SessionOpened (next_sid w),
           FileWritten (path_join UPLOAD_DIR (uuid4 e @ suffix fname)),
           RolledBack (next_sid w),
           FileDeleted (path_join UPLOAD_DIR (uuid4 e @ suffix fname)),
           SessionClosed (next_sid w)]\<rparr>)"
proof -
  let ?w1 = "w\<lparr>next_sid := Suc (next_sid w), events := events w @ [SessionOpened (next_sid w)]\<rparr>"
  let ?db = "\<lparr>sid = next_sid w, pending = []\<rparr>"
  have "commit_error e = Some (SQLAlchemyError m) \<or>
           (commit_error e = None \<and> m = UNIQUE_failed \<and>
            uuid4 e @ suffix fname \<in> set (map File.system_filename (table_files ?w1)))"
    using assms(6) by simp
  from upload_try_store_error [OF refl assms(3,4,5) this, of ?db]
  show ?thesis
    using assms(1,2)
    by (simp add: post_upload_document_def get_db_def session_local upload_document_def
        db_rollback_def db_close_def path_exists_def unlink_def http_codes)
qed

theorem insert_failure_compensated_witness:
  "post_upload_document example_env_duplicate
     (FilePart \<lparr>filename = Some ''notes.txt'', content = [104, 105, 33]\<rparr>) example_world =
     (\<lparr>status_code = 500, body = Detail (''Database error: '' @ UNIQUE_failed)\<rparr>,
      example_world
       \<lparr>disk := Map.empty,
        next_sid := 8,
        events :=
          [SessionOpened 7,
           FileWritten ''backend/uploaded_files/0d9e8c7b-1a2f-4b3c-8d4e-5f6a7b8c9d0e.txt'',
           RolledBack 7,
           FileDeleted ''backend/uploaded_files/0d9e8c7b-1a2f-4b3c-8d4e-5f6a7b8c9d0e.txt'',
           SessionClosed 7]\<rparr>)"
  using insert_failure_compensated
    [of "\<lparr>filename = Some ''notes.txt'', content = [104, 105, 33]\<rparr>" "''notes.txt''"
        example_env_duplicate UNIQUE_failed example_world]
  by (simp add: example_env_duplicate_def example_env_def example_world_def suffix_notes
      MAX_FILE_SIZE_def UPLOAD_DIR_def path_join_def)

text \<open>
  Claim C9. When the file was written and the commit then raises an exception that is
  not a store error, the handler answers 500 and does not delete the file: the file
  stays on disk with the whole payload, no \<open>FileDeleted\<close> event occurs, the table is
  as it was, and no row carries the storage name (the token being unused before).
\<close>

theorem unexpected_failure_leaves_file:
  assumes "filename file = Some fname" and "fname \<noteq> []"
      and "content file \<noteq> []" and "int (length (content file)) \<le> MAX_FILE_SIZE"
      and "fs_error e = None"
      and "commit_error e = Some x" and "\<nexists>m. x = SQLAlchemyError m"
      and "uuid4 e @ suffix fname \<notin> set (map File.system_filename (table_files w))"
  shows "post_upload_document e (FilePart file) w =
     (\<lparr>status_code = 500, body = Detail (''Error uploading file: '' @ str x)\<rparr>,
      w\<lparr>disk := (disk w)(path_join UPLOAD_DIR (uuid4 e @ suffix fname) \<mapsto> content file),
        next_sid := Suc (next_sid w),
        events := events w @
          [SessionOpened (next_sid w),
           FileWritten (path_join UPLOAD_DIR (uuid4 e @ suffix fname)),
           RolledBack (next_sid w),
           SessionClosed (next_sid w)]\<rparr>)
    \<and> uuid4 e @ suffix fname \<notin> set (map File.system_filename
          (table_files (snd (post_upload_document e (FilePart file) w))))"
proof -
  let ?w1 = "w\<lparr>next_sid := Suc (next_sid w), events := events w @ [SessionOpened (next_sid w)]\<rparr>"
  let ?db = "\<lparr>sid = next_sid w, pending = []\<rparr>"
  from upload_try_commit_raises [OF refl assms(3,4,5,6), of ?db fname ?w1]
  show ?thesis
    using assms(1,2,7,8)
    by (cases x)
       (simp_all add: post_upload_document_def get_db_def session_local upload_document_def
        db_rollback_def db_close_def http_codes)
qed

theorem unexpected_failure_leaves_file_witness:
  "post_upload_document example_env_crash (FilePart example_upload) example_world =
     (\<lparr>status_code = 500, body = Detail ''Error uploading file: out of memory''\<rparr>,
      example_world
       \<lparr>disk := (disk example_world)
          (''backend/uploaded_files/6f1c2a9e-58b3-4d0a-9c1e-2b7f4a3d5e60.pdf''
             \<mapsto> [37, 80, 68, 70]),
        next_sid := 8,
        events :=
          [SessionOpened 7,
           FileWritten ''backend/uploaded_files/6f1c2a9e-58b3-4d0a-9c1e-2b7f4a3d5e60.pdf'',
           RolledBack 7,
           SessionClosed 7]\<rparr>)
   \<and> table_files (snd (post_upload_document example_env_crash (FilePart example_upload)
        example_world)) = table_files example_world"
  using unexpected_failure_leaves_file
    [of example_upload "''report.pdf''" example_env_crash "OtherError ''out of memory''"
        example_world]
  by (simp add: example_env_crash_def example_env_def example_world_def example_upload_def
      suffix_report MAX_FILE_SIZE_def UPLOAD_DIR_def path_join_def)

section \<open>One session for each request\<close>

text \<open>
  Claim C8. Every request to the upload route (with or without a file part) and to the
  listing route, whatever its outcome, adds exactly two session events to the log: the
  opening of one new session, and then the closing of that same session, which is the
  last effect of the request.
\<close>

theorem one_session_per_request:
  "filter is_session_event (events (snd (post_upload_document e req w))) =
     filter is_session_event (events w) @
       [SessionOpened (next_sid w), SessionClosed (next_sid w)]
   \<and> last (events (snd (post_upload_document e req w))) = SessionClosed (next_sid w)
   \<and> filter is_session_event (events (snd (get_files_route e w))) =
     filter is_session_event (events w) @
       [SessionOpened (next_sid w), SessionClosed (next_sid w)]
   \<and> last (events (snd (get_files_route e w))) = SessionClosed (next_sid w)"
proof -
  have up: "filter is_session_event (events (snd (post_upload_document e req w))) =
     filter is_session_event (events w) @
       [SessionOpened (next_sid w), SessionClosed (next_sid w)]
   \<and> last (events (snd (post_upload_document e req w))) = SessionClosed (next_sid w)"
  proof (cases req)
    case NoFilePart
    have "filter is_session_event (events (snd (get_db (\<lambda>db w'. ((), db, w')) w))) =
           filter is_session_event (events w) @
             [SessionOpened (next_sid w), SessionClosed (next_sid w)]
         \<and> last (events (snd (get_db (\<lambda>db w'. ((), db, w')) w))) = SessionClosed (next_sid w)"
      by (rule get_db_sessions) simp
    then show ?thesis
      using NoFilePart
      by (cases "get_db (\<lambda>db w'. ((), db, w')) w") (simp add: post_upload_document_def)
  next
    case (FilePart upl)
    have "filter is_session_event (events (snd (get_db (upload_document e upl) w))) =
           filter is_session_event (events w) @
             [SessionOpened (next_sid w), SessionClosed (next_sid w)]
         \<and> last (events (snd (get_db (upload_document e upl) w))) = SessionClosed (next_sid w)"
      by (rule get_db_sessions) (simp add: upload_document_sessions)
    then show ?thesis
      using FilePart
      by (cases "get_db (upload_document e upl) w") (simp add: post_upload_document_def)
  qed
  have "filter is_session_event (events (snd (get_db (get_files e) w))) =
           filter is_session_event (events w) @
             [SessionOpened (next_sid w), SessionClosed (next_sid w)]
         \<and> last (events (snd (get_db (get_files e) w))) = SessionClosed (next_sid w)"
    by (rule get_db_sessions) (auto dest: get_files_sessions)
  then have "filter is_session_event (events (snd (get_files_route e w))) =
     filter is_session_event (events w) @
       [SessionOpened (next_sid w), SessionClosed (next_sid w)]
   \<and> last (events (snd (get_files_route e w))) = SessionClosed (next_sid w)"
    by (cases "get_db (get_files e) w") (simp add: get_files_route_def)
  with up show ?thesis by simp
qed

section \<open>Uploads without a filename\<close>

text \<open>
  Claim C7, as stated: every upload request in which no filename is present, a request
  with no file part at all included, is answered with 400. It fails for the request
  without a file part: the parameter \<^verbatim>\<open>file\<close> is required, the request does not reach
  the handler, and the answer is the framework's 422.
\<close>

theorem no_file_part_answered_422:
  "status_code (fst (post_upload_document example_env NoFilePart example_world)) \<noteq> 400"
  by (simp add: post_upload_document_def get_db_def session_local db_close_def http_codes)

text \<open>
  Claim C7, amended. An upload whose file part reaches the handler with no filename
  (\<^verbatim>\<open>None\<close> or the empty string) is answered with 400 and the detail
  \<^verbatim>\<open>No filename provided\<close>; a request with no file part is answered with 422 before
  the handler runs. In both cases no file is written and no row is inserted: only the
  session is opened and closed.
\<close>

theorem missing_filename_rejected:
  assumes "filename file = None \<or> filename file = Some []"
  shows "post_upload_document e (FilePart file) w =
     (\<lparr>status_code = 400, body = Detail ''No filename provided''\<rparr>,
      w\<lparr>next_sid := Suc (next_sid w),
        events := events w @ [SessionOpened (next_sid w), SessionClosed (next_sid w)]\<rparr>)
   \<and> post_upload_document e NoFilePart w =
     (\<lparr>status_code = 422, body = ValidationErrors\<rparr>,
      w\<lparr>next_sid := Suc (next_sid w),
        events := events w @ [SessionOpened (next_sid w), SessionClosed (next_sid w)]\<rparr>)"
  using assms
  by (auto simp: post_upload_document_def get_db_def session_local upload_document_def
      db_close_def http_codes)

theorem missing_filename_rejected_witness:
  "post_upload_document example_env (FilePart \<lparr>filename = Some [], content = [1, 2]\<rparr>)
     example_world =
     (\<lparr>status_code = 400, body = Detail ''No filename provided''\<rparr>,
      example_world\<lparr>next_sid := 8, events := [SessionOpened 7, SessionClosed 7]\<rparr>)"
  using missing_filename_rejected
    [of "\<lparr>filename = Some [], content = [1, 2]\<rparr>" example_env example_world]
  by (simp add: example_world_def)

section \<open>The listing\<close>

text \<open>
  Claim C5. For every state of the store, when the query raises nothing, the listing is
  answered with 200 and the views of all rows of the table (the same rows, each once),
  in non-increasing order of \<open>uploaded_at\<close>, with \<open>count\<close> the length of the list;
  each view carries the five fields of its row; disk and table are unchanged.
\<close>

theorem listing_newest_first:
  assumes "query_error e = None"
  shows "get_files_route e w =
     (\<lparr>status_code = 200,
       body = Listing
         \<lparr>files = map from_orm (order_by_uploaded_at_desc (table_files w)),
          count = int (length (map from_orm (order_by_uploaded_at_desc (table_files w))))\<rparr>\<rparr>,
      w\<lparr>next_sid := Suc (next_sid w),
        events := events w @ [SessionOpened (next_sid w), SessionClosed (next_sid w)]\<rparr>)
   \<and> mset (order_by_uploaded_at_desc (table_files w)) = mset (table_files w)
   \<and> sorted_wrt (\<lambda>a b. File.uploaded_at b \<le> File.uploaded_at a)
        (order_by_uploaded_at_desc (table_files w))
   \<and> from_orm r =
        \<lparr>FileMetadata.id = File.id r,
         FileMetadata.original_filename = File.original_filename r,
         FileMetadata.system_filename = File.system_filename r,
         FileMetadata.file_size_bytes = File.file_size_bytes r,
         FileMetadata.uploaded_at = Some (File.uploaded_at r)\<rparr>"
proof -
  have "get_files_route e w =
     (\<lparr>status_code = 200,
       body = Listing
         \<lparr>files = map from_orm (order_by_uploaded_at_desc (table_files w)),
          count = int (length (map from_orm (order_by_uploaded_at_desc (table_files w))))\<rparr>\<rparr>,
      w\<lparr>next_sid := Suc (next_sid w),
        events := events w @ [SessionOpened (next_sid w), SessionClosed (next_sid w)]\<rparr>)"
    using assms
    by (simp add: get_files_route_def get_db_def session_local get_files_def db_query_all_def
        db_close_def http_codes Let_def)
  moreover have "mset (order_by_uploaded_at_desc (table_files w)) = mset (table_files w)"
    by (simp add: order_by_uploaded_at_desc_def)
  ultimately show ?thesis
    using sorted_desc [of "table_files w"] by (simp add: from_orm_def)
qed

theorem listing_newest_first_witness:
  "map FileMetadata.id
     (case body (fst (get_files_route example_env (example_world\<lparr>table_files := example_rows\<rparr>)))
      of Listing l \<Rightarrow> files l | _ \<Rightarrow> []) = [2, 1, 3]
   \<and> status_code (fst (get_files_route example_env
         (example_world\<lparr>table_files := example_rows\<rparr>))) = 200"
  using listing_newest_first [of example_env "example_world\<lparr>table_files := example_rows\<rparr>"]
  by (simp add: example_env_def example_rows_def order_by_uploaded_at_desc_def from_orm_def)

section \<open>The stored bytes and the storage name\<close>

text \<open>
  Claim C10. For every upload answered with 201, the file under the generated storage
  name holds exactly the bytes of the payload, and the write of the file
  (\<open>FileWritten\<close>) comes before the insert of the row (\<open>Committed\<close>) in the log of the
  request.
\<close>

theorem written_bytes_equal_payload:
  assumes "status_code (fst (post_upload_document e (FilePart file) w)) = 201"
  shows "\<exists>fname. filename file = Some fname \<and>
           disk (snd (post_upload_document e (FilePart file) w))
             (path_join UPLOAD_DIR (uuid4 e @ suffix fname)) = Some (content file) \<and>
           events (snd (post_upload_document e (FilePart file) w)) =
             events w @
               [SessionOpened (next_sid w),
                FileWritten (path_join UPLOAD_DIR (uuid4 e @ suffix fname)),
                Committed [max_id (table_files w) + 1],
                SessionClosed (next_sid w)]"
proof -
  from created_only_when_valid [OF assms] obtain fname where
    f: "filename file = Some fname" "fname \<noteq> []"
       "content file \<noteq> []" "int (length (content file)) \<le> MAX_FILE_SIZE"
       "fs_error e = None" "commit_error e = None"
       "uuid4 e @ suffix fname \<notin> set (map File.system_filename (table_files w))"
    by blast
  from post_upload_ok [OF f] f(1) show ?thesis by simp
qed

theorem written_bytes_equal_payload_witness:
  "disk (snd (post_upload_document example_env (FilePart example_upload) example_world))
     ''backend/uploaded_files/6f1c2a9e-58b3-4d0a-9c1e-2b7f4a3d5e60.pdf'' = Some [37, 80, 68, 70]"
proof -
  have "status_code (fst (post_upload_document example_env (FilePart example_upload)
          example_world)) = 201"
    by (subst post_upload_ok [where fname = "''report.pdf''"])
       (simp_all add: example_env_def example_world_def example_upload_def suffix_report
          MAX_FILE_SIZE_def)
  from written_bytes_equal_payload [OF this] show ?thesis
    by (simp add: example_env_def example_upload_def suffix_report UPLOAD_DIR_def path_join_def)
qed

text \<open>
  Claim C6, as stated: the extension is the substring of the original filename that
  starts at its last \<^verbatim>\<open>.\<close>, or empty if there is none. It fails for the filename
  \<^verbatim>\<open>a.b/c\<close>: the storage name is the bare token, not the token followed by
  \<^verbatim>\<open>.b/c\<close>.
\<close>

theorem extension_not_last_dot_substring:
  "File.system_filename (last (table_files (snd
      (post_upload_document example_env (FilePart example_upload_nested) example_world))))
   \<noteq> uuid4 example_env @ spec_extension ''a.b/c''"
proof -
  have "post_upload_document example_env (FilePart example_upload_nested) example_world =
     (\<lparr>status_code = 201,
       body = Upload \<lparr>message = ''File uploaded successfully'',
                      file_id = max_id (table_files example_world) + 1\<rparr>\<rparr>,
      example_world
       \<lparr>disk := (disk example_world)
          (path_join UPLOAD_DIR (uuid4 example_env @ suffix ''a.b/c'') \<mapsto>
             content example_upload_nested),
        table_files := table_files example_world @
          [\<lparr>File.id = max_id (table_files example_world) + 1,
            File.original_filename = ''a.b/c'',
            File.system_filename = uuid4 example_env @ suffix ''a.b/c'',
            File.file_size_bytes = int (length (content example_upload_nested)),
            File.uploaded_at = utcnow example_env\<rparr>],
        next_sid := Suc (next_sid example_world),
        events := events example_world @
          [SessionOpened (next_sid example_world),
           FileWritten (path_join UPLOAD_DIR (uuid4 example_env @ suffix ''a.b/c'')),
           Committed [max_id (table_files example_world) + 1],
           SessionClosed (next_sid example_world)]\<rparr>)"
    by (rule post_upload_ok)
       (simp_all add: example_env_def example_world_def example_upload_nested_def
          suffix_nested MAX_FILE_SIZE_def)
  then show ?thesis
    by (simp add: suffix_nested spec_extension_def)
qed

text \<open>
  Claim C6, amended. For every accepted upload (a non-empty filename, a payload that is
  non-empty and at most \<open>MAX_FILE_SIZE\<close> bytes long) the path the handler writes to is
  the upload directory joined with the token followed by the extension \<open>ext\<close>, and
  when the upload is answered with 201 the new row's \<open>system_filename\<close> is the token
  followed by \<open>ext\<close> and the file is on disk under that name. Here \<open>ext\<close> is
  taken on the name of the filename read as a path: the filename is cut at every
  \<^verbatim>\<open>/\<close>, the pieces that are empty or a single \<^verbatim>\<open>.\<close> are discarded, and the name is
  the last piece that remains (empty if none remains). \<open>ext\<close> is the substring of the
  name starting at its last \<^verbatim>\<open>.\<close> when a \<^verbatim>\<open>.\<close> occurs after the name's first
  character and the name does not end in \<^verbatim>\<open>.\<close>, and it is empty otherwise.
\<close>

theorem storage_name_is_token_and_suffix:
  assumes "filename file = Some fname" and "fname \<noteq> []"
      and "content file \<noteq> []" and "int (length (content file)) \<le> MAX_FILE_SIZE"
      and "ext = (if CHR ''.'' \<in> set (tl (spec_component fname)) \<and>
                     last (spec_component fname) \<noteq> CHR ''.''
                  then spec_extension (spec_component fname) else [])"
  shows "fst (snd (upload_try e file fname db w)) = Some (path_join UPLOAD_DIR (uuid4 e @ ext))
   \<and> (status_code (fst (post_upload_document e (FilePart file) w)) = 201 \<longrightarrow>
        map File.system_filename (table_files (snd (post_upload_document e (FilePart file) w)))
          = map File.system_filename (table_files w) @ [uuid4 e @ ext]
        \<and> disk (snd (post_upload_document e (FilePart file) w))
            (path_join UPLOAD_DIR (uuid4 e @ ext)) = Some (content file))"
proof -
  have ext: "ext = suffix fname"
    using assms(5) by (simp add: suffix_characterised spec_component_path_name)
  have "map File.system_filename (table_files (snd (post_upload_document e (FilePart file) w)))
          = map File.system_filename (table_files w) @ [uuid4 e @ ext]
        \<and> disk (snd (post_upload_document e (FilePart file) w))
            (path_join UPLOAD_DIR (uuid4 e @ ext)) = Some (content file)"
    if ok: "status_code (fst (post_upload_document e (FilePart file) w)) = 201"
  proof -
    from created_only_when_valid [OF ok] assms(1) have
      f: "fs_error e = None" "commit_error e = None"
         "uuid4 e @ suffix fname \<notin> set (map File.system_filename (table_files w))"
      by auto
    from post_upload_ok [OF assms(1-4) f] ext show ?thesis by simp
  qed
  then show ?thesis
    using upload_try_file_path [OF assms(3,4), of e fname db w] ext by simp
qed

theorem storage_name_is_token_and_suffix_witness:
  "fst (snd (upload_try example_env example_upload ''report.pdf''
        \<lparr>sid = 7, pending = []\<rparr> example_world)) =
     Some ''backend/uploaded_files/6f1c2a9e-58b3-4d0a-9c1e-2b7f4a3d5e60.pdf''
   \<and> fst (snd (upload_try example_env \<lparr>filename = Some ''.bashrc'', content = [1]\<rparr>
        ''.bashrc'' \<lparr>sid = 7, pending = []\<rparr> example_world)) =
     Some ''backend/uploaded_files/6f1c2a9e-58b3-4d0a-9c1e-2b7f4a3d5e60''
   \<and> fst (snd (upload_try example_env \<lparr>filename = Some ''a/b.txt/'', content = [1]\<rparr>
        ''a/b.txt/'' \<lparr>sid = 7, pending = []\<rparr> example_world)) =
     Some ''backend/uploaded_files/6f1c2a9e-58b3-4d0a-9c1e-2b7f4a3d5e60.txt''
   \<and> fst (snd (upload_try example_env \<lparr>filename = Some ''x.y/.'', content = [1]\<rparr>
        ''x.y/.'' \<lparr>sid = 7, pending = []\<rparr> example_world)) =
     Some ''backend/uploaded_files/6f1c2a9e-58b3-4d0a-9c1e-2b7f4a3d5e60.y''"
  using storage_name_is_token_and_suffix
      [of example_upload "''report.pdf''" "''.pdf''" example_env
          "\<lparr>sid = 7, pending = []\<rparr>" example_world]
    storage_name_is_token_and_suffix
      [of "\<lparr>filename = Some ''.bashrc'', content = [1]\<rparr>" "''.bashrc''" "[]"
          example_env "\<lparr>sid = 7, pending = []\<rparr>" example_world]
    storage_name_is_token_and_suffix
      [of "\<lparr>filename = Some ''a/b.txt/'', content = [1]\<rparr>" "''a/b.txt/''" "''.txt''"
          example_env "\<lparr>sid = 7, pending = []\<rparr>" example_world]
    storage_name_is_token_and_suffix
      [of "\<lparr>filename = Some ''x.y/.'', content = [1]\<rparr>" "''x.y/.''" "''.y''"
          example_env "\<lparr>sid = 7, pending = []\<rparr>" example_world]
  by (simp add: example_env_def example_upload_def MAX_FILE_SIZE_def UPLOAD_DIR_def
      path_join_def spec_component_def spec_extension_def)

end
